theory Spec2Isabelle
  imports Main
begin

section \<open>Outcomes of Go code\<close>

text \<open>
  A Go function either returns or panics (a nil dereference, a failed unchecked type
  assertion). Every panic modelled below happens before the function has called the
  connector, so a panic carries no effects.
\<close>

datatype 'a outcome = Panic | Returned 'a

section \<open>The parsed selection tree (package ast)\<close>

text \<open>
  \<^verbatim>\<open>ast.Selection\<close> is an interface; \<^verbatim>\<open>*ast.Field\<close> is the implementation the
  code asserts it to be, a fragment spread and an inline fragment are the others.
  A field has a name and a pointer to its selection set, nil when the field has no
  sub-selection.
\<close>

datatype Field = Field (Name: string) (SelectionSet: "Selection list option")
  and Selection =
      SelField Field
    | SelFragmentSpread string
    | SelInlineFragment "Selection list"

section \<open>Errors\<close>

text \<open>
  A Go \<^verbatim>\<open>error\<close>: either a plain error that only carries its message
  (\<^verbatim>\<open>errors.New\<close>, \<^verbatim>\<open>fmt.Errorf\<close>, whatever the connector returns), or the
  \<^verbatim>\<open>*gqlerrors.Error\<close> built by \<^verbatim>\<open>gqlerrors.NewError\<close> from a message, the
  nodes it is attached to, a stack and the original error (its source and positions
  arguments are always nil and empty in this code, and are left out).
\<close>

datatype error =
    ErrorString string
  | GQLError (Message: string) (Nodes: "Field list") (Stack: string) (OriginalError: error)

fun Error :: "error \<Rightarrow> string" where
  "Error (ErrorString s) = s"
| "Error (GQLError m ns st orig) = m"

definition errors_New :: "string \<Rightarrow> error" where
  "errors_New s = ErrorString s"

text \<open>\<^verbatim>\<open>gqlerrors.FieldASTsToNodeASTs\<close> converts the slice element by element.\<close>

definition FieldASTsToNodeASTs :: "Field list \<Rightarrow> Field list" where
  "FieldASTsToNodeASTs fieldASTs = fieldASTs"

definition gqlerrors_NewError :: "string \<Rightarrow> Field list \<Rightarrow> string \<Rightarrow> error \<Rightarrow> error" where
  "gqlerrors_NewError message nodes stack origError = GQLError message nodes stack origError"

section \<open>The models the resolvers read\<close>

type_synonym UUID = string

text \<open>
  \<^verbatim>\<open>models.SingleRef\<close>: the code dereferences \<^verbatim>\<open>*cref.LocationURL\<close>, so the
  location is a pointer to a string, nil when absent.
\<close>

record SingleRef =
  NrDollarCref :: UUID
  LocationURL :: "string option"
  Type :: string

record ObjectSubject =
  Object :: "SingleRef option"
  Subject :: "SingleRef option"

record KeyTokenGetResponse =
  KeyID :: UUID
  Token :: UUID
  Email :: string
  IPOrigin :: "string list"
  KeyExpiresUnix :: int
  Read :: bool
  Execute :: bool
  Write :: bool
  Delete :: bool
  Parent :: "SingleRef option"

record ThingGetResponse =
  thing_AtContext :: string
  thing_AtClass :: string
  thing_CreationTimeUnix :: int
  thing_LastUpdateTimeUnix :: int
  ThingID :: UUID
  thing_Key :: "SingleRef option"

datatype JSONObject = JSONObject string

record ActionGetResponse =
  action_AtContext :: string
  action_AtClass :: string
  action_CreationTimeUnix :: int
  action_LastUpdateTimeUnix :: int
  ActionID :: UUID
  Things :: "ObjectSubject option"
  action_Key :: "SingleRef option"
  action_Schema :: "(string \<times> JSONObject) list option"

text \<open>The zero values \<^verbatim>\<open>models.KeyTokenGetResponse{}\<close> and so on.\<close>

definition zeroKeyTokenGetResponse :: KeyTokenGetResponse where
  "zeroKeyTokenGetResponse =
     \<lparr>KeyID = [], Token = [], Email = [], IPOrigin = [], KeyExpiresUnix = 0,
      Read = False, Execute = False, Write = False, Delete = False, Parent = None\<rparr>"

definition zeroThingGetResponse :: ThingGetResponse where
  "zeroThingGetResponse =
     \<lparr>thing_AtContext = [], thing_AtClass = [], thing_CreationTimeUnix = 0,
      thing_LastUpdateTimeUnix = 0, ThingID = [], thing_Key = None\<rparr>"

definition zeroActionGetResponse :: ActionGetResponse where
  "zeroActionGetResponse =
     \<lparr>action_AtContext = [], action_AtClass = [], action_CreationTimeUnix = 0,
      action_LastUpdateTimeUnix = 0, ActionID = [], Things = None, action_Key = None,
      action_Schema = None\<rparr>"

definition zeroObjectSubject :: ObjectSubject where
  "zeroObjectSubject = \<lparr>Object = None, Subject = None\<rparr>"

section \<open>The connector, the configuration and the schema holder\<close>

text \<open>
  \<^verbatim>\<open>dbconnector.DatabaseConnector\<close>: each operation takes the identifier and a
  pointer to the response it fills, and returns an error or nil. The model returns
  the error together with the response as the connector left it.
\<close>

record DatabaseConnector =
  GetThing :: "UUID \<Rightarrow> ThingGetResponse \<Rightarrow> error option \<times> ThingGetResponse"
  GetAction :: "UUID \<Rightarrow> ActionGetResponse \<Rightarrow> error option \<times> ActionGetResponse"
  GetKey :: "UUID \<Rightarrow> KeyTokenGetResponse \<Rightarrow> error option \<times> KeyTokenGetResponse"

text \<open>
  What a resolver does besides returning: the connector operations it calls, in
  order. \<^verbatim>\<open>Reprojected\<close> stands for a call of \<^verbatim>\<open>GetSubQuery\<close> on a selection list
  and \<^verbatim>\<open>Requested\<close> for a call of \<^verbatim>\<open>doRequest\<close> (host name, endpoint, method).
\<close>

datatype effect =
    ConnectorGetThing UUID
  | ConnectorGetAction UUID
  | ConnectorGetKey UUID
  | Reprojected "Selection list"
  | Requested string string string

text \<open>
  Modelled from the spec: \<^verbatim>\<open>config.WeaviateConfig\<close> and its method
  \<^verbatim>\<open>GetHostAddress\<close> are not among the sources; the spec gives "this node's own
  externally reachable address (string, host[:port])".
\<close>

record WeaviateConfig =
  HostAddress :: string

definition GetHostAddress :: "WeaviateConfig \<Rightarrow> string" where
  "GetHostAddress c = HostAddress c"

record 's GraphQLSchema =
  weaviateGraphQLSchema :: 's
  serverConfig :: WeaviateConfig
  dbConnector :: DatabaseConnector

text \<open>\<^verbatim>\<open>NewGraphQLSchema\<close>: \<^verbatim>\<open>new(GraphQLSchema)\<close> holds the zero schema.\<close>

definition NewGraphQLSchema :: "'s \<Rightarrow> DatabaseConnector \<Rightarrow> WeaviateConfig \<Rightarrow> 's GraphQLSchema" where
  "NewGraphQLSchema zeroSchema databaseConnector config =
     \<lparr>weaviateGraphQLSchema = zeroSchema, serverConfig = config,
      dbConnector = databaseConnector\<rparr>"

text \<open>
  A Go pointer is nil or the address of a value. The address of a field of the
  struct the receiver points to is never nil.
\<close>

datatype 'a pointer = NilPointer | AddressOf 'a

definition addressOf_weaviateGraphQLSchema :: "'s GraphQLSchema \<Rightarrow> 's pointer" where
  "addressOf_weaviateGraphQLSchema f = AddressOf (weaviateGraphQLSchema f)"

definition GetGraphQLSchema :: "'s \<Rightarrow> 's GraphQLSchema \<Rightarrow> 's \<times> error option" where
  "GetGraphQLSchema zeroSchema f =
     (if addressOf_weaviateGraphQLSchema f = NilPointer
      then (zeroSchema,
            Some (errors_New (''schema is not initialized, perhaps you forget to run ''
                              @ [CHR 0x27] @ ''InitSchema'' @ [CHR 0x27])))
      else (weaviateGraphQLSchema f, None))"

section \<open>Resolving a cross-reference\<close>

text \<open>
  What \<^verbatim>\<open>objectLoaded interface{}\<close> holds: a pointer to one of the three
  responses (modelled by the response it points to), or anything else.
\<close>

datatype loaded =
    ThingGetResponsePtr ThingGetResponse
  | ActionGetResponsePtr ActionGetResponse
  | KeyTokenGetResponsePtr KeyTokenGetResponse
  | OtherLoaded

definition licenseMessage :: string where
  "licenseMessage = ''a license for connection to another Weaviate-instance is required in order to resolve this query further''"

text \<open>
  The condition \<^verbatim>\<open>f.serverConfig.GetHostAddress() != *cref.LocationURL\<close> of
  \<^verbatim>\<open>resolveCrossRef\<close>: dereferencing a nil location panics; otherwise the result
  is \<open>True\<close> when the reference lives on another host (resolution is denied) and
  \<open>False\<close> when it lives on this one (resolution is allowed).
\<close>

definition hostAddressDiffers :: "WeaviateConfig \<Rightarrow> SingleRef \<Rightarrow> bool outcome" where
  "hostAddressDiffers config cref =
     (case LocationURL cref of
        None \<Rightarrow> Panic
      | Some url \<Rightarrow> Returned (GetHostAddress config \<noteq> url))"

text \<open>
  The \<^verbatim>\<open>else\<close> branch of \<^verbatim>\<open>resolveCrossRef\<close>: the chain of comparisons of
  \<^verbatim>\<open>cref.Type\<close>. The unchecked assertion \<^verbatim>\<open>objectLoaded.(*models.ThingGetResponse)\<close>
  is an argument of the connector call, so it panics before the call is made.
\<close>

definition typeErrorMessage :: "string \<Rightarrow> string" where
  "typeErrorMessage t =
     ''can'' @ [CHR 0x27] @ ''t resolve the given type '' @ [CHR 0x27] @ t @ [CHR 0x27]"

definition dispatchCrossRef ::
  "DatabaseConnector \<Rightarrow> SingleRef \<Rightarrow> loaded \<Rightarrow> (error option \<times> loaded \<times> effect list) outcome" where
  "dispatchCrossRef db cref objectLoaded =
     (if Type cref = ''Thing'' then
        (case objectLoaded of
           ThingGetResponsePtr t \<Rightarrow>
             (case GetThing db (NrDollarCref cref) t of
                (err, t') \<Rightarrow>
                  Returned (err, ThingGetResponsePtr t', [ConnectorGetThing (NrDollarCref cref)]))
         | _ \<Rightarrow> Panic)
      else if Type cref = ''Action'' then
        (case objectLoaded of
           ActionGetResponsePtr a \<Rightarrow>
             (case GetAction db (NrDollarCref cref) a of
                (err, a') \<Rightarrow>
                  Returned (err, ActionGetResponsePtr a', [ConnectorGetAction (NrDollarCref cref)]))
         | _ \<Rightarrow> Panic)
      else if Type cref = ''Key'' then
        (case objectLoaded of
           KeyTokenGetResponsePtr k \<Rightarrow>
             (case GetKey db (NrDollarCref cref) k of
                (err, k') \<Rightarrow>
                  Returned (err, KeyTokenGetResponsePtr k', [ConnectorGetKey (NrDollarCref cref)]))
         | _ \<Rightarrow> Panic)
      else Returned (Some (ErrorString (typeErrorMessage (Type cref))), objectLoaded, []))"

text \<open>
  The tail of \<^verbatim>\<open>resolveCrossRef\<close>: an error is wrapped by \<^verbatim>\<open>gqlerrors.NewError\<close>
  with the nodes of the fields being resolved.
\<close>

definition wrapError :: "Field list \<Rightarrow> error option \<Rightarrow> error option" where
  "wrapError fieldASTs err =
     (case err of
        None \<Rightarrow> None
      | Some e \<Rightarrow> Some (gqlerrors_NewError (Error e) (FieldASTsToNodeASTs fieldASTs) (Error e) e))"

text \<open>
  \<^verbatim>\<open>resolveCrossRef(fields, cref, objectLoaded)\<close>, its parameter \<^verbatim>\<open>fields\<close>
  written \<open>fieldASTs\<close>: returns the error, what \<^verbatim>\<open>objectLoaded\<close> points to
  afterwards, and the effects. A nil \<^verbatim>\<open>cref\<close> panics at
  \<^verbatim>\<open>cref.LocationURL\<close>.
\<close>

definition resolveCrossRef ::
  "'s GraphQLSchema \<Rightarrow> Field list \<Rightarrow> SingleRef option \<Rightarrow> loaded
     \<Rightarrow> (error option \<times> loaded \<times> effect list) outcome" where
  "resolveCrossRef f fieldASTs cref objectLoaded =
     (case cref of
        None \<Rightarrow> Panic
      | Some r \<Rightarrow>
          (case hostAddressDiffers (serverConfig f) r of
             Panic \<Rightarrow> Panic
           | Returned differs \<Rightarrow>
               (case (if differs
                      then Returned (Some (errors_New licenseMessage), objectLoaded, [])
                      else dispatchCrossRef (dbConnector f) r objectLoaded) of
                  Panic \<Rightarrow> Panic
                | Returned (err, objectLoaded', effects) \<Rightarrow>
                    Returned (wrapError fieldASTs err, objectLoaded', effects))))"

section \<open>The field resolvers\<close>

text \<open>
  \<^verbatim>\<open>graphql.ResolveParams\<close>: the dynamic type of \<^verbatim>\<open>p.Source\<close> is one of the
  three responses (a value, not a pointer), a pointer to an \<^verbatim>\<open>ObjectSubject\<close>
  (possibly a nil pointer), nil, or some other type. An argument is a string or
  something else; \<^verbatim>\<open>p.Info.FieldASTs\<close> are the fields being resolved.
\<close>

datatype source =
    SourceKey KeyTokenGetResponse
  | SourceThing ThingGetResponse
  | SourceAction ActionGetResponse
  | SourceObjectSubjectPtr "ObjectSubject option"
  | SourceNil
  | SourceOther

datatype argument = ArgString string | ArgOther

record ResolveParams =
  Source :: source
  Args :: "string \<Rightarrow> argument option"
  FieldASTs :: "Field list"

text \<open>
  What a resolver returns as \<^verbatim>\<open>interface{}\<close>. \<open>ValFloat64 n\<close> is the conversion
  \<^verbatim>\<open>float64(n)\<close> of an integer.
\<close>

datatype resolved =
    ValNil
  | ValString string
  | ValStrings "string list"
  | ValFloat64 int
  | ValBool bool
  | ValKey KeyTokenGetResponse
  | ValThing ThingGetResponse
  | ValAction ActionGetResponse
  | ValObjectSubjectPtr "ObjectSubject option"

type_synonym resolution = "(resolved \<times> error option \<times> effect list) outcome"

text \<open>
  A resolver that passes \<^verbatim>\<open>&keyResponse\<close> to \<^verbatim>\<open>resolveCrossRef\<close> returns the
  local variable afterwards: what the pointer points to.
\<close>

fun keyResponseOf :: "loaded \<Rightarrow> KeyTokenGetResponse" where
  "keyResponseOf (KeyTokenGetResponsePtr k) = k"
| "keyResponseOf _ = zeroKeyTokenGetResponse"

fun thingResponseOf :: "loaded \<Rightarrow> ThingGetResponse" where
  "thingResponseOf (ThingGetResponsePtr t) = t"
| "thingResponseOf _ = zeroThingGetResponse"

subsection \<open>keyType\<close>

definition keyType_uuid :: "ResolveParams \<Rightarrow> resolution" where
  "keyType_uuid p =
     (case Source p of
        SourceKey key \<Rightarrow> Returned (ValString (KeyID key), None, [])
      | _ \<Rightarrow> Returned (ValNil, None, []))"

definition keyType_token :: "ResolveParams \<Rightarrow> resolution" where
  "keyType_token p =
     (case Source p of
        SourceKey key \<Rightarrow> Returned (ValString (Token key), None, [])
      | _ \<Rightarrow> Returned (ValNil, None, []))"

definition keyType_email :: "ResolveParams \<Rightarrow> resolution" where
  "keyType_email p =
     (case Source p of
        SourceKey key \<Rightarrow> Returned (ValString (Email key), None, [])
      | _ \<Rightarrow> Returned (ValNil, None, []))"

definition keyType_ipOrigin :: "ResolveParams \<Rightarrow> resolution" where
  "keyType_ipOrigin p =
     (case Source p of
        SourceKey key \<Rightarrow> Returned (ValStrings (IPOrigin key), None, [])
      | _ \<Rightarrow> Returned (ValNil, None, []))"

definition keyType_keyExpiresUnix :: "ResolveParams \<Rightarrow> resolution" where
  "keyType_keyExpiresUnix p =
     (case Source p of
        SourceKey key \<Rightarrow> Returned (ValFloat64 (KeyExpiresUnix key), None, [])
      | _ \<Rightarrow> Returned (ValNil, None, []))"

definition keyType_read :: "ResolveParams \<Rightarrow> resolution" where
  "keyType_read p =
     (case Source p of
        SourceKey key \<Rightarrow> Returned (ValBool (Read key), None, [])
      | _ \<Rightarrow> Returned (ValNil, None, []))"

definition keyType_execute :: "ResolveParams \<Rightarrow> resolution" where
  "keyType_execute p =
     (case Source p of
        SourceKey key \<Rightarrow> Returned (ValBool (Execute key), None, [])
      | _ \<Rightarrow> Returned (ValNil, None, []))"

definition keyType_write :: "ResolveParams \<Rightarrow> resolution" where
  "keyType_write p =
     (case Source p of
        SourceKey key \<Rightarrow> Returned (ValBool (Write key), None, [])
      | _ \<Rightarrow> Returned (ValNil, None, []))"

definition keyType_delete :: "ResolveParams \<Rightarrow> resolution" where
  "keyType_delete p =
     (case Source p of
        SourceKey key \<Rightarrow> Returned (ValBool (Delete key), None, [])
      | _ \<Rightarrow> Returned (ValNil, None, []))"

definition keyType_parent :: "'s GraphQLSchema \<Rightarrow> ResolveParams \<Rightarrow> resolution" where
  "keyType_parent f p =
     (case Source p of
        SourceKey key \<Rightarrow>
          (case resolveCrossRef f (FieldASTs p) (Parent key) (KeyTokenGetResponsePtr zeroKeyTokenGetResponse) of
             Panic \<Rightarrow> Panic
           | Returned (err, objectLoaded, effects) \<Rightarrow>
               Returned (ValKey (keyResponseOf objectLoaded), err, effects))
      | _ \<Rightarrow> Returned (ValKey zeroKeyTokenGetResponse, None, []))"

text \<open>The field table of \<^verbatim>\<open>keyType\<close>, \<^verbatim>\<open>parent\<close> added by \<^verbatim>\<open>AddFieldConfig\<close>.\<close>

definition keyType_Fields :: "'s GraphQLSchema \<Rightarrow> (string \<times> (ResolveParams \<Rightarrow> resolution)) list" where
  "keyType_Fields f =
     [(''uuid'', keyType_uuid), (''token'', keyType_token), (''email'', keyType_email),
      (''ipOrigin'', keyType_ipOrigin), (''keyExpiresUnix'', keyType_keyExpiresUnix),
      (''read'', keyType_read), (''execute'', keyType_execute), (''write'', keyType_write),
      (''delete'', keyType_delete), (''parent'', keyType_parent f)]"

subsection \<open>thingType\<close>

definition thingType_atContext :: "ResolveParams \<Rightarrow> resolution" where
  "thingType_atContext p =
     (case Source p of
        SourceThing thing \<Rightarrow> Returned (ValString (thing_AtContext thing), None, [])
      | _ \<Rightarrow> Returned (ValNil, None, []))"

definition thingType_atClass :: "ResolveParams \<Rightarrow> resolution" where
  "thingType_atClass p =
     (case Source p of
        SourceThing thing \<Rightarrow> Returned (ValString (thing_AtClass thing), None, [])
      | _ \<Rightarrow> Returned (ValNil, None, []))"

definition thingType_creationTimeUnix :: "ResolveParams \<Rightarrow> resolution" where
  "thingType_creationTimeUnix p =
     (case Source p of
        SourceThing thing \<Rightarrow> Returned (ValFloat64 (thing_CreationTimeUnix thing), None, [])
      | _ \<Rightarrow> Returned (ValNil, None, []))"

definition thingType_lastUpdateTimeUnix :: "ResolveParams \<Rightarrow> resolution" where
  "thingType_lastUpdateTimeUnix p =
     (case Source p of
        SourceThing thing \<Rightarrow> Returned (ValFloat64 (thing_LastUpdateTimeUnix thing), None, [])
      | _ \<Rightarrow> Returned (ValNil, None, []))"

definition thingType_uuid :: "ResolveParams \<Rightarrow> resolution" where
  "thingType_uuid p =
     (case Source p of
        SourceThing thing \<Rightarrow> Returned (ValString (ThingID thing), None, [])
      | _ \<Rightarrow> Returned (ValNil, None, []))"

definition thingType_key :: "'s GraphQLSchema \<Rightarrow> ResolveParams \<Rightarrow> resolution" where
  "thingType_key f p =
     (case Source p of
        SourceThing thing \<Rightarrow>
          (case resolveCrossRef f (FieldASTs p) (thing_Key thing) (KeyTokenGetResponsePtr zeroKeyTokenGetResponse) of
             Panic \<Rightarrow> Panic
           | Returned (err, objectLoaded, effects) \<Rightarrow>
               Returned (ValKey (keyResponseOf objectLoaded), err, effects))
      | _ \<Rightarrow> Returned (ValKey zeroKeyTokenGetResponse, None, []))"

definition thingType_Fields :: "'s GraphQLSchema \<Rightarrow> (string \<times> (ResolveParams \<Rightarrow> resolution)) list" where
  "thingType_Fields f =
     [(''atContext'', thingType_atContext), (''atClass'', thingType_atClass),
      (''creationTimeUnix'', thingType_creationTimeUnix),
      (''lastUpdateTimeUnix'', thingType_lastUpdateTimeUnix),
      (''uuid'', thingType_uuid), (''key'', thingType_key f)]"

subsection \<open>objectSubjectType\<close>

text \<open>
  The assertion \<^verbatim>\<open>p.Source.(*models.ObjectSubject)\<close> succeeds for a nil pointer of
  that type too; reading \<^verbatim>\<open>ref.Object\<close> through it panics.
\<close>

definition objectSubjectType_object :: "'s GraphQLSchema \<Rightarrow> ResolveParams \<Rightarrow> resolution" where
  "objectSubjectType_object f p =
     (case Source p of
        SourceObjectSubjectPtr None \<Rightarrow> Panic
      | SourceObjectSubjectPtr (Some ref) \<Rightarrow>
          (case resolveCrossRef f (FieldASTs p) (Object ref)
                  (ThingGetResponsePtr zeroThingGetResponse) of
             Panic \<Rightarrow> Panic
           | Returned (err, objectLoaded, effects) \<Rightarrow>
               Returned (ValThing (thingResponseOf objectLoaded), err, effects))
      | _ \<Rightarrow> Returned (ValThing zeroThingGetResponse, None, []))"

definition objectSubjectType_subject :: "'s GraphQLSchema \<Rightarrow> ResolveParams \<Rightarrow> resolution" where
  "objectSubjectType_subject f p =
     (case Source p of
        SourceObjectSubjectPtr None \<Rightarrow> Panic
      | SourceObjectSubjectPtr (Some ref) \<Rightarrow>
          (case resolveCrossRef f (FieldASTs p) (Subject ref)
                  (ThingGetResponsePtr zeroThingGetResponse) of
             Panic \<Rightarrow> Panic
           | Returned (err, objectLoaded, effects) \<Rightarrow>
               Returned (ValThing (thingResponseOf objectLoaded), err, effects))
      | _ \<Rightarrow> Returned (ValThing zeroThingGetResponse, None, []))"

definition objectSubjectType_Fields :: "'s GraphQLSchema \<Rightarrow> (string \<times> (ResolveParams \<Rightarrow> resolution)) list" where
  "objectSubjectType_Fields f =
     [(''object'', objectSubjectType_object f), (''subject'', objectSubjectType_subject f)]"

subsection \<open>actionType\<close>

definition actionType_atContext :: "ResolveParams \<Rightarrow> resolution" where
  "actionType_atContext p =
     (case Source p of
        SourceAction action \<Rightarrow> Returned (ValString (action_AtContext action), None, [])
      | _ \<Rightarrow> Returned (ValNil, None, []))"

definition actionType_atClass :: "ResolveParams \<Rightarrow> resolution" where
  "actionType_atClass p =
     (case Source p of
        SourceAction action \<Rightarrow> Returned (ValString (action_AtClass action), None, [])
      | _ \<Rightarrow> Returned (ValNil, None, []))"

definition actionType_creationTimeUnix :: "ResolveParams \<Rightarrow> resolution" where
  "actionType_creationTimeUnix p =
     (case Source p of
        SourceAction action \<Rightarrow> Returned (ValFloat64 (action_CreationTimeUnix action), None, [])
      | _ \<Rightarrow> Returned (ValNil, None, []))"

definition actionType_lastUpdateTimeUnix :: "ResolveParams \<Rightarrow> resolution" where
  "actionType_lastUpdateTimeUnix p =
     (case Source p of
        SourceAction action \<Rightarrow> Returned (ValFloat64 (action_LastUpdateTimeUnix action), None, [])
      | _ \<Rightarrow> Returned (ValNil, None, []))"

definition actionType_uuid :: "ResolveParams \<Rightarrow> resolution" where
  "actionType_uuid p =
     (case Source p of
        SourceAction action \<Rightarrow> Returned (ValString (ActionID action), None, [])
      | _ \<Rightarrow> Returned (ValNil, None, []))"

definition actionType_things :: "ResolveParams \<Rightarrow> resolution" where
  "actionType_things p =
     (case Source p of
        SourceAction action \<Rightarrow> Returned (ValObjectSubjectPtr (Things action), None, [])
      | _ \<Rightarrow> Returned (ValNil, None, []))"

definition actionType_key :: "'s GraphQLSchema \<Rightarrow> ResolveParams \<Rightarrow> resolution" where
  "actionType_key f p =
     (case Source p of
        SourceAction action \<Rightarrow>
          (case resolveCrossRef f (FieldASTs p) (action_Key action) (KeyTokenGetResponsePtr zeroKeyTokenGetResponse) of
             Panic \<Rightarrow> Panic
           | Returned (err, objectLoaded, effects) \<Rightarrow>
               Returned (ValKey (keyResponseOf objectLoaded), err, effects))
      | _ \<Rightarrow> Returned (ValKey zeroKeyTokenGetResponse, None, []))"

definition actionType_Fields :: "'s GraphQLSchema \<Rightarrow> (string \<times> (ResolveParams \<Rightarrow> resolution)) list" where
  "actionType_Fields f =
     [(''atContext'', actionType_atContext), (''atClass'', actionType_atClass),
      (''creationTimeUnix'', actionType_creationTimeUnix),
      (''lastUpdateTimeUnix'', actionType_lastUpdateTimeUnix),
      (''uuid'', actionType_uuid), (''things'', actionType_things),
      (''key'', actionType_key f)]"

subsection \<open>queryType\<close>

text \<open>
  The three entry points read \<^verbatim>\<open>p.Args["id"].(string)\<close>: the unchecked assertion
  panics when the argument is missing (a nil interface) or not a string. The
  response the connector filled and the connector's error are returned together.
\<close>

definition queryType_thing :: "'s GraphQLSchema \<Rightarrow> ResolveParams \<Rightarrow> resolution" where
  "queryType_thing f p =
     (case Args p ''id'' of
        Some (ArgString UUID) \<Rightarrow>
          (case GetThing (dbConnector f) UUID zeroThingGetResponse of
             (err, thingResponse) \<Rightarrow>
               Returned (ValThing thingResponse, err, [ConnectorGetThing UUID]))
      | _ \<Rightarrow> Panic)"

definition queryType_action :: "'s GraphQLSchema \<Rightarrow> ResolveParams \<Rightarrow> resolution" where
  "queryType_action f p =
     (case Args p ''id'' of
        Some (ArgString UUID) \<Rightarrow>
          (case GetAction (dbConnector f) UUID
                  (zeroActionGetResponse\<lparr>action_Schema := Some [], Things := Some zeroObjectSubject\<rparr>) of
             (err, actionResponse) \<Rightarrow>
               Returned (ValAction actionResponse, err, [ConnectorGetAction UUID]))
      | _ \<Rightarrow> Panic)"

definition queryType_key :: "'s GraphQLSchema \<Rightarrow> ResolveParams \<Rightarrow> resolution" where
  "queryType_key f p =
     (case Args p ''id'' of
        Some (ArgString UUID) \<Rightarrow>
          (case GetKey (dbConnector f) UUID zeroKeyTokenGetResponse of
             (err, keyResponse) \<Rightarrow>
               Returned (ValKey keyResponse, err, [ConnectorGetKey UUID]))
      | _ \<Rightarrow> Panic)"

definition queryType_Fields :: "'s GraphQLSchema \<Rightarrow> (string \<times> (ResolveParams \<Rightarrow> resolution)) list" where
  "queryType_Fields f =
     [(''thing'', queryType_thing f), (''action'', queryType_action f), (''key'', queryType_key f)]"

section \<open>Sub-query reprojection\<close>

text \<open>
  \<^verbatim>\<open>GetSubQuery\<close>: the loop over \<^verbatim>\<open>selections\<close> with the string \<^verbatim>\<open>collectQuery\<close>
  built so far; \<^verbatim>\<open>GetSubQuery\<close> itself starts the loop with the empty string. The
  unchecked assertion \<^verbatim>\<open>selection.(*ast.Field)\<close> panics on a selection that is not
  a field.
\<close>

function GetSubQuery_loop :: "string \<Rightarrow> Selection list \<Rightarrow> string outcome" where
  "GetSubQuery_loop collectQuery [] = Returned collectQuery"
| "GetSubQuery_loop collectQuery (SelField (Field name None) # rest) =
     GetSubQuery_loop (collectQuery @ '' '' @ name) rest"
| "GetSubQuery_loop collectQuery (SelField (Field name (Some selections)) # rest) =
     (case GetSubQuery_loop [] selections of
        Panic \<Rightarrow> Panic
      | Returned subQuery \<Rightarrow>
          GetSubQuery_loop ((collectQuery @ '' '' @ name) @ '' { '' @ subQuery @ '' } '') rest)"
| "GetSubQuery_loop collectQuery (SelFragmentSpread v # rest) = Panic"
| "GetSubQuery_loop collectQuery (SelInlineFragment v # rest) = Panic"
  by pat_completeness auto
termination
  by (relation "measure (\<lambda>(collectQuery, selections). size_list size selections)") auto

definition GetSubQuery :: "Selection list \<Rightarrow> string outcome" where
  "GetSubQuery selections = GetSubQuery_loop [] selections"

section \<open>What the specification says of reprojection\<close>

text \<open>
  The specification takes a selection subtree to be an ordered sequence of field
  nodes, each possibly carrying a nested subtree.
\<close>

fun onlyFields :: "Selection \<Rightarrow> bool" where
  "onlyFields (SelField (Field name None)) = True"
| "onlyFields (SelField (Field name (Some selections))) = list_all onlyFields selections"
| "onlyFields (SelFragmentSpread v) = False"
| "onlyFields (SelInlineFragment v) = False"

text \<open>
  The rendering in the specification's words: the fields depth first and left to
  right, each name after a space, and a nested selection as a block in braces right
  after the name, one space between the name and the opening brace.
\<close>

function reprojection :: "Selection list \<Rightarrow> string" where
  "reprojection [] = []"
| "reprojection (SelField (Field name None) # rest) = '' '' @ name @ reprojection rest"
| "reprojection (SelField (Field name (Some selections)) # rest) =
     '' '' @ name @ '' '' @ ''{ '' @ reprojection selections @ '' } '' @ reprojection rest"
| "reprojection (SelFragmentSpread v # rest) = reprojection rest"
| "reprojection (SelInlineFragment v # rest) = reprojection rest"
  by pat_completeness auto
termination
  by (relation "measure (size_list size)") auto

text \<open>Whitespace tolerance: runs of spaces count as one space.\<close>

fun squeeze :: "string \<Rightarrow> string" where
  "squeeze (a # b # cs) =
     (if a = CHR '' '' \<and> b = CHR '' '' then squeeze (b # cs) else a # squeeze (b # cs))"
| "squeeze cs = cs"

text \<open>The selection \<^verbatim>\<open>{ uuid key { uuid token } }\<close> of scenario D.\<close>

definition scenarioD :: "Selection list" where
  "scenarioD =
     [SelField (Field ''uuid'' None),
      SelField (Field ''key'' (Some [SelField (Field ''uuid'' None),
                                     SelField (Field ''token'' None)]))]"

section \<open>Parsing a field list\<close>

text \<open>
  Modelled from the spec: the parser of the query language belongs to the query
  engine and is not among the sources. The specification's field-selection grammar
  is a sequence of field names, a name optionally followed by a block in braces
  holding a field list of its own. Names are those of the query language: letters,
  digits and underscores, not starting with a digit; spaces, tabs, line ends and
  commas separate tokens and are otherwise ignored.
\<close>

datatype token = TName string | TLBrace | TRBrace

definition isNameChar :: "char \<Rightarrow> bool" where
  "isNameChar c =
     (c \<in> set ''_0123456789abcdefghijklmnopqrstuvwxyzABCDEFGHIJKLMNOPQRSTUVWXYZ'')"

definition isDigit :: "char \<Rightarrow> bool" where
  "isDigit c = (c \<in> set ''0123456789'')"

definition isIgnored :: "char \<Rightarrow> bool" where
  "isIgnored c = (c \<in> set [CHR '' '', CHR 0x09, CHR 0x0A, CHR 0x0D, CHR '',''])"

definition validName :: "string \<Rightarrow> bool" where
  "validName name = (name \<noteq> [] \<and> \<not> isDigit (hd name) \<and> list_all isNameChar name)"

text \<open>The characters of a name read so far become a name token when the name ends.\<close>

definition flushName :: "string \<Rightarrow> token list option" where
  "flushName pending =
     (if pending = [] then Some []
      else if isDigit (hd pending) then None
      else Some [TName pending])"

fun lexer :: "string \<Rightarrow> string \<Rightarrow> token list option" where
  "lexer pending [] = flushName pending"
| "lexer pending (c # cs) =
     (if isNameChar c then lexer (pending @ [c]) cs
      else case flushName pending of
             None \<Rightarrow> None
           | Some name \<Rightarrow>
               (if isIgnored c then map_option (\<lambda>ts. name @ ts) (lexer [] cs)
                else if c = CHR ''{'' then map_option (\<lambda>ts. name @ TLBrace # ts) (lexer [] cs)
                else if c = CHR ''}'' then map_option (\<lambda>ts. name @ TRBrace # ts) (lexer [] cs)
                else None))"

text \<open>
  The parser keeps the fields of the block being read (latest first) and a stack of
  the enclosing blocks, each with the name of the field whose block was opened. A
  block must follow a name and must not be empty; every block must be closed.
\<close>

fun parseTokens ::
  "token list \<Rightarrow> (Selection list \<times> string) list \<Rightarrow> Selection list \<Rightarrow> Selection list option" where
  "parseTokens [] stack current = (if stack = [] then Some (rev current) else None)"
| "parseTokens (TName name # TLBrace # ts) stack current =
     parseTokens ts ((current, name) # stack) []"
| "parseTokens (TName name # ts) stack current =
     parseTokens ts stack (SelField (Field name None) # current)"
| "parseTokens (TLBrace # ts) stack current = None"
| "parseTokens (TRBrace # ts) stack current =
     (case stack of
        [] \<Rightarrow> None
      | (outer, name) # stack' \<Rightarrow>
          (if current = [] then None
           else parseTokens ts stack' (SelField (Field name (Some (rev current))) # outer)))"

definition parseFieldList :: "string \<Rightarrow> Selection list option" where
  "parseFieldList s = (case lexer [] s of None \<Rightarrow> None | Some ts \<Rightarrow> parseTokens ts [] [])"

text \<open>
  The subtrees a field list can denote: fields only, named validly, and no empty
  block. Their token sequence is the depth-first one.
\<close>

fun wellFormed :: "Selection \<Rightarrow> bool" where
  "wellFormed (SelField (Field name None)) = validName name"
| "wellFormed (SelField (Field name (Some selections))) =
     (validName name \<and> selections \<noteq> [] \<and> list_all wellFormed selections)"
| "wellFormed (SelFragmentSpread v) = False"
| "wellFormed (SelInlineFragment v) = False"

function fieldTokens :: "Selection list \<Rightarrow> token list" where
  "fieldTokens [] = []"
| "fieldTokens (SelField (Field name None) # rest) = TName name # fieldTokens rest"
| "fieldTokens (SelField (Field name (Some selections)) # rest) =
     TName name # TLBrace # fieldTokens selections @ TRBrace # fieldTokens rest"
| "fieldTokens (SelFragmentSpread v # rest) = fieldTokens rest"
| "fieldTokens (SelInlineFragment v # rest) = fieldTokens rest"
  by pat_completeness auto
termination
  by (relation "measure (size_list size)") auto

definition boundary :: "string \<Rightarrow> bool" where
  "boundary s = (case s of [] \<Rightarrow> True | c # cs \<Rightarrow> \<not> isNameChar c)"

definition noLBrace :: "token list \<Rightarrow> bool" where
  "noLBrace ts = (case ts of TLBrace # ts' \<Rightarrow> False | _ \<Rightarrow> True)"

definition frameOk :: "Selection list \<times> string \<Rightarrow> bool" where
  "frameOk fr = (validName (snd fr) \<and> list_all wellFormed (fst fr))"

section \<open>Predicates and an example deployment\<close>

text \<open>The dynamic type a resolver's checked assertion on \<^verbatim>\<open>p.Source\<close> accepts.\<close>

fun isKeySource :: "source \<Rightarrow> bool" where
  "isKeySource (SourceKey k) = True"
| "isKeySource _ = False"

fun isThingSource :: "source \<Rightarrow> bool" where
  "isThingSource (SourceThing t) = True"
| "isThingSource _ = False"

fun isActionSource :: "source \<Rightarrow> bool" where
  "isActionSource (SourceAction a) = True"
| "isActionSource _ = False"

fun isObjectSubjectSource :: "source \<Rightarrow> bool" where
  "isObjectSubjectSource (SourceObjectSubjectPtr os) = True"
| "isObjectSubjectSource _ = False"

fun isConnectorFetch :: "effect \<Rightarrow> bool" where
  "isConnectorFetch (ConnectorGetThing uuid) = True"
| "isConnectorFetch (ConnectorGetAction uuid) = True"
| "isConnectorFetch (ConnectorGetKey uuid) = True"
| "isConnectorFetch (Reprojected selections) = False"
| "isConnectorFetch (Requested hostname endpoint method) = False"

text \<open>
  A node at \<^verbatim>\<open>localhost:8080\<close> whose connector knows the thing \<^verbatim>\<open>T1\<close>, the action
  \<^verbatim>\<open>A1\<close> and the key \<^verbatim>\<open>K1\<close> and reports anything else as not found.
\<close>

definition notFound :: error where
  "notFound = ErrorString ''not found''"

definition localKeyRef :: SingleRef where
  "localKeyRef = \<lparr>NrDollarCref = ''K1'', LocationURL = Some ''localhost:8080'', Type = ''Key''\<rparr>"

definition exampleConnector :: DatabaseConnector where
  "exampleConnector =
     \<lparr>GetThing = (\<lambda>uuid t. if uuid = ''T1''
                    then (None, t\<lparr>ThingID := uuid, thing_AtClass := ''Person'', thing_Key := Some localKeyRef\<rparr>)
                    else (Some notFound, t)),
      GetAction = (\<lambda>uuid a. if uuid = ''A1''
                    then (None, a\<lparr>ActionID := uuid, action_AtClass := ''Move'', action_Key := Some localKeyRef\<rparr>)
                    else (Some notFound, a)),
      GetKey = (\<lambda>uuid k. if uuid = ''K1''
                    then (None, k\<lparr>KeyID := uuid, Email := ''k1@example.org'', Read := True\<rparr>)
                    else (Some notFound, k))\<rparr>"

definition exampleSchema :: "unit GraphQLSchema" where
  "exampleSchema = NewGraphQLSchema () exampleConnector \<lparr>HostAddress = ''localhost:8080''\<rparr>"

text \<open>The field \<^verbatim>\<open>key { uuid ...KeyParts }\<close>, whose selection holds a fragment spread.\<close>

definition keySelections :: "Selection list" where
  "keySelections = [SelField (Field ''uuid'' None), SelFragmentSpread ''KeyParts'']"

definition keyField :: Field where
  "keyField = Field ''key'' (Some keySelections)"

section \<open>The schema holder\<close>

text \<open>
  C10: \<^verbatim>\<open>GetGraphQLSchema\<close> returns the stored schema with a nil error in every
  state of the struct, also in the state \<^verbatim>\<open>NewGraphQLSchema\<close> leaves before
  \<^verbatim>\<open>InitSchema\<close> has run: the address of the field is never nil, so the branch
  returning "schema is not initialized" is never taken.
\<close>

theorem GetGraphQLSchema_always_succeeds:
  "GetGraphQLSchema zeroSchema f = (weaviateGraphQLSchema f, None)
   \<and> addressOf_weaviateGraphQLSchema f \<noteq> NilPointer
   \<and> GetGraphQLSchema zeroSchema (NewGraphQLSchema zeroSchema databaseConnector config)
       = (zeroSchema, None)"
  by (simp add: GetGraphQLSchema_def addressOf_weaviateGraphQLSchema_def NewGraphQLSchema_def)

section \<open>The federation policy gate\<close>

text \<open>
  C5, as stated, fails: a reference whose location pointer is nil makes the
  comparison of the gate panic, and \<^verbatim>\<open>resolveCrossRef\<close> with it.
\<close>

theorem hostAddressDiffers_nil_location_counterexample:
  "hostAddressDiffers \<lparr>HostAddress = ''localhost:8080''\<rparr>
     \<lparr>NrDollarCref = ''K1'', LocationURL = None, Type = ''Key''\<rparr> = Panic
   \<and> resolveCrossRef exampleSchema [keyField]
       (Some \<lparr>NrDollarCref = ''K1'', LocationURL = None, Type = ''Key''\<rparr>)
       (KeyTokenGetResponsePtr zeroKeyTokenGetResponse) = Panic"
  by (simp add: hostAddressDiffers_def resolveCrossRef_def)

text \<open>
  C5, amended: for every reference that declares an origin and every configured
  address the gate returns, without panicking, exactly one of two answers: allowed
  (\<open>False\<close>, the origin is this node's address) or denied (\<open>True\<close>, any other
  origin).
\<close>

theorem hostAddressDiffers_declared_origin:
  "LocationURL cref = Some origin \<Longrightarrow>
   hostAddressDiffers config cref = Returned (GetHostAddress config \<noteq> origin)"
  by (simp add: hostAddressDiffers_def)

theorem hostAddressDiffers_declared_origin_witness:
  "hostAddressDiffers (serverConfig exampleSchema) localKeyRef = Returned False
   \<and> hostAddressDiffers (serverConfig exampleSchema) (localKeyRef\<lparr>LocationURL := Some ''remote:80''\<rparr>) = Returned True"
  using hostAddressDiffers_declared_origin[of localKeyRef "''localhost:8080''" "serverConfig exampleSchema"]
        hostAddressDiffers_declared_origin[of "localKeyRef\<lparr>LocationURL := Some ''remote:80''\<rparr>" "''remote:80''" "serverConfig exampleSchema"]
  by (simp add: localKeyRef_def exampleSchema_def NewGraphQLSchema_def GetHostAddress_def)




text \<open>
  C6: a reference of this node whose type is none of \<^verbatim>\<open>Thing\<close>, \<^verbatim>\<open>Action\<close>,
  \<^verbatim>\<open>Key\<close> fails with the error naming that type; no connector operation is
  called, not even once.
\<close>

theorem resolveCrossRef_unknown_type:
  assumes "LocationURL cref = Some (GetHostAddress (serverConfig f))"
    and "Type cref \<noteq> ''Thing''" and "Type cref \<noteq> ''Action''" and "Type cref \<noteq> ''Key''"
  shows "resolveCrossRef f fieldASTs (Some cref) objectLoaded =
           Returned (Some (GQLError
                       (''can'' @ [CHR 0x27] @ ''t resolve the given type '' @ [CHR 0x27] @ Type cref @ [CHR 0x27])
                       fieldASTs
                       (''can'' @ [CHR 0x27] @ ''t resolve the given type '' @ [CHR 0x27] @ Type cref @ [CHR 0x27])
                       (ErrorString (''can'' @ [CHR 0x27] @ ''t resolve the given type '' @ [CHR 0x27] @ Type cref @ [CHR 0x27]))),
                     objectLoaded, [])"
  using assms
  by (simp add: resolveCrossRef_def hostAddressDiffers_def wrapError_def dispatchCrossRef_def
        typeErrorMessage_def gqlerrors_NewError_def FieldASTsToNodeASTs_def)

theorem resolveCrossRef_unknown_type_witness:
  "resolveCrossRef exampleSchema [keyField] (Some (localKeyRef\<lparr>Type := ''Device''\<rparr>))
       (KeyTokenGetResponsePtr zeroKeyTokenGetResponse)
     = Returned (Some (GQLError (''can'' @ [CHR 0x27] @ ''t resolve the given type '' @ [CHR 0x27] @ ''Device'' @ [CHR 0x27]) [keyField]
                         (''can'' @ [CHR 0x27] @ ''t resolve the given type '' @ [CHR 0x27] @ ''Device'' @ [CHR 0x27])
                         (ErrorString (''can'' @ [CHR 0x27] @ ''t resolve the given type '' @ [CHR 0x27] @ ''Device'' @ [CHR 0x27]))),
         KeyTokenGetResponsePtr zeroKeyTokenGetResponse, [])"
  using resolveCrossRef_unknown_type[of "localKeyRef\<lparr>Type := ''Device''\<rparr>" exampleSchema "[keyField]"
          "KeyTokenGetResponsePtr zeroKeyTokenGetResponse"]
  by (simp add: exampleSchema_def NewGraphQLSchema_def GetHostAddress_def localKeyRef_def)

section \<open>Dispatch by kind\<close>

lemmas example_defs = exampleSchema_def NewGraphQLSchema_def GetHostAddress_def localKeyRef_def
  exampleConnector_def

text \<open>
  C2, as stated, fails: a reference of this node tagged \<^verbatim>\<open>Thing\<close> that is resolved
  into a key response, as the \<^verbatim>\<open>key\<close> resolver of a thing does, panics at the
  unchecked assertion on \<^verbatim>\<open>objectLoaded\<close>; \<^verbatim>\<open>GetThing\<close> is not called.
\<close>

theorem resolveCrossRef_wrong_destination_counterexample:
  "resolveCrossRef exampleSchema [keyField] (Some (localKeyRef\<lparr>NrDollarCref := ''T1'', Type := ''Thing''\<rparr>))
     (KeyTokenGetResponsePtr zeroKeyTokenGetResponse) = Panic
   \<and> thingType_key exampleSchema
       \<lparr>Source = SourceThing (zeroThingGetResponse\<lparr>thing_Key := Some (localKeyRef\<lparr>NrDollarCref := ''T1'', Type := ''Thing''\<rparr>)\<rparr>),
        Args = Map.empty, FieldASTs = [keyField]\<rparr> = Panic"
  by (simp add: resolveCrossRef_def hostAddressDiffers_def dispatchCrossRef_def thingType_key_def
      exampleSchema_def NewGraphQLSchema_def GetHostAddress_def localKeyRef_def)

text \<open>
  C2, amended: for each of the tags \<^verbatim>\<open>Thing\<close>, \<^verbatim>\<open>Action\<close>, \<^verbatim>\<open>Key\<close>, a reference
  of this node carrying the tag, resolved into a response of the matching type, calls
  exactly the matching connector operation with the reference's identifier and no
  other operation; its error (wrapped) and the response it filled are returned.
\<close>

theorem resolveCrossRef_dispatch:
  assumes "LocationURL cref = Some (GetHostAddress (serverConfig f))"
  shows "(Type cref = ''Thing'' \<longrightarrow>
            resolveCrossRef f fieldASTs (Some cref) (ThingGetResponsePtr thing) =
              Returned (wrapError fieldASTs (fst (GetThing (dbConnector f) (NrDollarCref cref) thing)),
                        ThingGetResponsePtr (snd (GetThing (dbConnector f) (NrDollarCref cref) thing)),
                        [ConnectorGetThing (NrDollarCref cref)]))
       \<and> (Type cref = ''Action'' \<longrightarrow>
            resolveCrossRef f fieldASTs (Some cref) (ActionGetResponsePtr action) =
              Returned (wrapError fieldASTs (fst (GetAction (dbConnector f) (NrDollarCref cref) action)),
                        ActionGetResponsePtr (snd (GetAction (dbConnector f) (NrDollarCref cref) action)),
                        [ConnectorGetAction (NrDollarCref cref)]))
       \<and> (Type cref = ''Key'' \<longrightarrow>
            resolveCrossRef f fieldASTs (Some cref) (KeyTokenGetResponsePtr key) =
              Returned (wrapError fieldASTs (fst (GetKey (dbConnector f) (NrDollarCref cref) key)),
                        KeyTokenGetResponsePtr (snd (GetKey (dbConnector f) (NrDollarCref cref) key)),
                        [ConnectorGetKey (NrDollarCref cref)]))"
  using assms
  by (simp add: resolveCrossRef_def hostAddressDiffers_def dispatchCrossRef_def split: prod.splits)

theorem resolveCrossRef_dispatch_witness:
  "resolveCrossRef exampleSchema [] (Some (localKeyRef\<lparr>NrDollarCref := ''T1'', Type := ''Thing''\<rparr>))
       (ThingGetResponsePtr zeroThingGetResponse)
     = Returned (None,
         ThingGetResponsePtr (zeroThingGetResponse\<lparr>ThingID := ''T1'', thing_AtClass := ''Person'', thing_Key := Some localKeyRef\<rparr>),
         [ConnectorGetThing ''T1''])
   \<and> resolveCrossRef exampleSchema [] (Some (localKeyRef\<lparr>NrDollarCref := ''A1'', Type := ''Action''\<rparr>))
       (ActionGetResponsePtr zeroActionGetResponse)
     = Returned (None,
         ActionGetResponsePtr (zeroActionGetResponse\<lparr>ActionID := ''A1'', action_AtClass := ''Move'', action_Key := Some localKeyRef\<rparr>),
         [ConnectorGetAction ''A1''])
   \<and> resolveCrossRef exampleSchema [] (Some localKeyRef)
       (KeyTokenGetResponsePtr zeroKeyTokenGetResponse)
     = Returned (None,
         KeyTokenGetResponsePtr (zeroKeyTokenGetResponse\<lparr>KeyID := ''K1'', Email := ''k1@example.org'', Read := True\<rparr>),
         [ConnectorGetKey ''K1''])"
  using resolveCrossRef_dispatch[of "localKeyRef\<lparr>NrDollarCref := ''T1'', Type := ''Thing''\<rparr>" exampleSchema "[]" zeroThingGetResponse]
        resolveCrossRef_dispatch[of "localKeyRef\<lparr>NrDollarCref := ''A1'', Type := ''Action''\<rparr>" exampleSchema "[]" _ zeroActionGetResponse]
        resolveCrossRef_dispatch[of localKeyRef exampleSchema "[]" _ _ zeroKeyTokenGetResponse]
  by (simp add: wrapError_def example_defs)

section \<open>Resolution and reprojection\<close>

text \<open>
  C7, as stated, fails: resolving a reference, remote or local, has no reprojection
  among its effects, and it returns on a field whose selection makes
  \<^verbatim>\<open>GetSubQuery\<close> panic.
\<close>

theorem resolveCrossRef_no_reprojection_counterexample:
  "resolveCrossRef exampleSchema [keyField] (Some (localKeyRef\<lparr>LocationURL := Some ''remote:80''\<rparr>))
       (KeyTokenGetResponsePtr zeroKeyTokenGetResponse)
     = Returned (Some (GQLError licenseMessage [keyField] licenseMessage (ErrorString licenseMessage)),
         KeyTokenGetResponsePtr zeroKeyTokenGetResponse, [])
   \<and> resolveCrossRef exampleSchema [keyField] (Some localKeyRef)
       (KeyTokenGetResponsePtr zeroKeyTokenGetResponse)
     = Returned (None,
         KeyTokenGetResponsePtr (zeroKeyTokenGetResponse\<lparr>KeyID := ''K1'', Email := ''k1@example.org'', Read := True\<rparr>),
         [ConnectorGetKey ''K1''])
   \<and> GetSubQuery keySelections = Panic"
  by (simp add: resolveCrossRef_def hostAddressDiffers_def dispatchCrossRef_def wrapError_def
      errors_New_def gqlerrors_NewError_def FieldASTsToNodeASTs_def example_defs keySelections_def GetSubQuery_def)

lemma dispatchCrossRef_effects:
  "dispatchCrossRef db cref objectLoaded = Returned (err, objectLoaded', effects) \<Longrightarrow>
   list_all isConnectorFetch effects \<and> length effects \<le> 1"
  by (auto simp: dispatchCrossRef_def split: if_splits loaded.splits prod.splits)

text \<open>
  C7, amended: no cross-reference resolution invokes sub-query reprojection or
  issues a forwarded request; whenever it returns, its effects are at most one
  connector fetch. \<^verbatim>\<open>GetSubQuery\<close> is a function of its own that callers may apply
  to a selection list.
\<close>

theorem resolveCrossRef_effects:
  assumes "resolveCrossRef f fieldASTs cref objectLoaded = Returned (err, objectLoaded', effects)"
  shows "list_all isConnectorFetch effects \<and> length effects \<le> 1"
proof (cases cref)
  case None
  with assms show ?thesis by (simp add: resolveCrossRef_def)
next
  case (Some r)
  show ?thesis
  proof (cases "hostAddressDiffers (serverConfig f) r")
    case Panic
    with assms Some show ?thesis by (simp add: resolveCrossRef_def)
  next
    case (Returned differs)
    show ?thesis
    proof (cases differs)
      case True
      with assms Some Returned show ?thesis by (auto simp: resolveCrossRef_def)
    next
      case False
      with assms Some Returned obtain e where
        "dispatchCrossRef (dbConnector f) r objectLoaded = Returned (e, objectLoaded', effects)"
        by (auto simp: resolveCrossRef_def split: outcome.splits)
      then show ?thesis by (rule dispatchCrossRef_effects)
    qed
  qed
qed

theorem resolveCrossRef_effects_witness:
  "resolveCrossRef exampleSchema [keyField] (Some localKeyRef)
       (KeyTokenGetResponsePtr zeroKeyTokenGetResponse)
     = Returned (None,
         KeyTokenGetResponsePtr (zeroKeyTokenGetResponse\<lparr>KeyID := ''K1'', Email := ''k1@example.org'', Read := True\<rparr>),
         [ConnectorGetKey ''K1''])
   \<and> list_all isConnectorFetch [ConnectorGetKey ''K1''] \<and> length [ConnectorGetKey ''K1''] \<le> 1"
  using resolveCrossRef_effects[of exampleSchema "[keyField]" "Some localKeyRef"
      "KeyTokenGetResponsePtr zeroKeyTokenGetResponse" None
      "KeyTokenGetResponsePtr (zeroKeyTokenGetResponse\<lparr>KeyID := ''K1'', Email := ''k1@example.org'', Read := True\<rparr>)"
      "[ConnectorGetKey ''K1'']"]
  by (simp add: resolveCrossRef_def hostAddressDiffers_def dispatchCrossRef_def wrapError_def example_defs)

section \<open>Resolvers on a source of the wrong type\<close>

lemmas keyType_resolver_defs = keyType_uuid_def keyType_token_def keyType_email_def
  keyType_ipOrigin_def keyType_keyExpiresUnix_def keyType_read_def keyType_execute_def
  keyType_write_def keyType_delete_def keyType_parent_def

lemmas thingType_resolver_defs = thingType_atContext_def thingType_atClass_def
  thingType_creationTimeUnix_def thingType_lastUpdateTimeUnix_def thingType_uuid_def
  thingType_key_def

lemmas actionType_resolver_defs = actionType_atContext_def actionType_atClass_def
  actionType_creationTimeUnix_def actionType_lastUpdateTimeUnix_def actionType_uuid_def
  actionType_things_def actionType_key_def

lemma keyType_wrong_source:
  "(name, resolve) \<in> set (keyType_Fields f) \<Longrightarrow> \<not> isKeySource (Source p) \<Longrightarrow>
   resolve p = Returned (ValNil, None, []) \<or> resolve p = Returned (ValKey zeroKeyTokenGetResponse, None, [])"
  by (cases "Source p") (auto simp: keyType_Fields_def keyType_resolver_defs)

lemma thingType_wrong_source:
  "(name, resolve) \<in> set (thingType_Fields f) \<Longrightarrow> \<not> isThingSource (Source p) \<Longrightarrow>
   resolve p = Returned (ValNil, None, []) \<or> resolve p = Returned (ValKey zeroKeyTokenGetResponse, None, [])"
  by (cases "Source p") (auto simp: thingType_Fields_def thingType_resolver_defs)

lemma actionType_wrong_source:
  "(name, resolve) \<in> set (actionType_Fields f) \<Longrightarrow> \<not> isActionSource (Source p) \<Longrightarrow>
   resolve p = Returned (ValNil, None, []) \<or> resolve p = Returned (ValKey zeroKeyTokenGetResponse, None, [])"
  by (cases "Source p") (auto simp: actionType_Fields_def actionType_resolver_defs)

lemma objectSubjectType_wrong_source:
  "(name, resolve) \<in> set (objectSubjectType_Fields f) \<Longrightarrow> \<not> isObjectSubjectSource (Source p) \<Longrightarrow>
   resolve p = Returned (ValThing zeroThingGetResponse, None, [])"
  by (cases "Source p")
     (auto simp: objectSubjectType_Fields_def objectSubjectType_object_def objectSubjectType_subject_def)

text \<open>
  C8: every resolver of the key, thing, object-subject and action types, given a
  source that is not of the type its checked assertion expects, returns nil, or
  the empty response it had prepared, together with a nil error, and calls nothing.
\<close>

theorem resolvers_wrong_source:
  "((nameK, resolveK) \<in> set (keyType_Fields f) \<and> \<not> isKeySource (Source pK) \<longrightarrow>
      resolveK pK = Returned (ValNil, None, [])
      \<or> resolveK pK = Returned (ValKey zeroKeyTokenGetResponse, None, []))
   \<and> ((nameT, resolveT) \<in> set (thingType_Fields f) \<and> \<not> isThingSource (Source pT) \<longrightarrow>
      resolveT pT = Returned (ValNil, None, [])
      \<or> resolveT pT = Returned (ValKey zeroKeyTokenGetResponse, None, []))
   \<and> ((nameO, resolveO) \<in> set (objectSubjectType_Fields f) \<and> \<not> isObjectSubjectSource (Source pO) \<longrightarrow>
      resolveO pO = Returned (ValThing zeroThingGetResponse, None, []))
   \<and> ((nameA, resolveA) \<in> set (actionType_Fields f) \<and> \<not> isActionSource (Source pA) \<longrightarrow>
      resolveA pA = Returned (ValNil, None, [])
      \<or> resolveA pA = Returned (ValKey zeroKeyTokenGetResponse, None, []))"
  using keyType_wrong_source[of nameK resolveK f pK] thingType_wrong_source[of nameT resolveT f pT]
    objectSubjectType_wrong_source[of nameO resolveO f pO] actionType_wrong_source[of nameA resolveA f pA]
  by blast

theorem resolvers_wrong_source_witness:
  "(keyType_parent exampleSchema \<lparr>Source = SourceNil, Args = Map.empty, FieldASTs = [keyField]\<rparr>
      = Returned (ValNil, None, [])
    \<or> keyType_parent exampleSchema \<lparr>Source = SourceNil, Args = Map.empty, FieldASTs = [keyField]\<rparr>
      = Returned (ValKey zeroKeyTokenGetResponse, None, []))
   \<and> (thingType_uuid \<lparr>Source = SourceKey zeroKeyTokenGetResponse, Args = Map.empty, FieldASTs = []\<rparr>
      = Returned (ValNil, None, [])
    \<or> thingType_uuid \<lparr>Source = SourceKey zeroKeyTokenGetResponse, Args = Map.empty, FieldASTs = []\<rparr>
      = Returned (ValKey zeroKeyTokenGetResponse, None, []))
   \<and> objectSubjectType_object exampleSchema \<lparr>Source = SourceOther, Args = Map.empty, FieldASTs = []\<rparr>
      = Returned (ValThing zeroThingGetResponse, None, [])
   \<and> (actionType_things \<lparr>Source = SourceObjectSubjectPtr None, Args = Map.empty, FieldASTs = []\<rparr>
      = Returned (ValNil, None, [])
    \<or> actionType_things \<lparr>Source = SourceObjectSubjectPtr None, Args = Map.empty, FieldASTs = []\<rparr>
      = Returned (ValKey zeroKeyTokenGetResponse, None, []))"
  using resolvers_wrong_source[of "''parent''" "keyType_parent exampleSchema" exampleSchema
      "\<lparr>Source = SourceNil, Args = Map.empty, FieldASTs = [keyField]\<rparr>"
      "''uuid''" thingType_uuid
      "\<lparr>Source = SourceKey zeroKeyTokenGetResponse, Args = Map.empty, FieldASTs = []\<rparr>"
      "''object''" "objectSubjectType_object exampleSchema"
      "\<lparr>Source = SourceOther, Args = Map.empty, FieldASTs = []\<rparr>"
      "''things''" actionType_things
      "\<lparr>Source = SourceObjectSubjectPtr None, Args = Map.empty, FieldASTs = []\<rparr>"]
  by (simp add: keyType_Fields_def thingType_Fields_def objectSubjectType_Fields_def actionType_Fields_def)

section \<open>The query root\<close>

text \<open>
  C9: given the string argument \<^verbatim>\<open>id\<close>, each of the entry points \<^verbatim>\<open>thing\<close>,
  \<^verbatim>\<open>action\<close>, \<^verbatim>\<open>key\<close> makes exactly one connector fetch, of its own kind, and
  returns the response as the connector left it together with the connector's
  error.
\<close>

theorem queryType_entity_and_error:
  assumes "Args p ''id'' = Some (ArgString uuid)"
  shows "queryType_thing f p =
           Returned (ValThing (snd (GetThing (dbConnector f) uuid zeroThingGetResponse)),
                     fst (GetThing (dbConnector f) uuid zeroThingGetResponse),
                     [ConnectorGetThing uuid])
       \<and> queryType_action f p =
           Returned (ValAction (snd (GetAction (dbConnector f) uuid
                        (zeroActionGetResponse\<lparr>action_Schema := Some [], Things := Some zeroObjectSubject\<rparr>))),
                     fst (GetAction (dbConnector f) uuid
                        (zeroActionGetResponse\<lparr>action_Schema := Some [], Things := Some zeroObjectSubject\<rparr>)),
                     [ConnectorGetAction uuid])
       \<and> queryType_key f p =
           Returned (ValKey (snd (GetKey (dbConnector f) uuid zeroKeyTokenGetResponse)),
                     fst (GetKey (dbConnector f) uuid zeroKeyTokenGetResponse),
                     [ConnectorGetKey uuid])"
  using assms
  by (simp add: queryType_thing_def queryType_action_def queryType_key_def split: prod.splits)

theorem queryType_entity_and_error_witness:
  "queryType_thing exampleSchema \<lparr>Source = SourceNil, Args = [''id'' \<mapsto> ArgString ''missing''], FieldASTs = []\<rparr>
     = Returned (ValThing zeroThingGetResponse, Some notFound, [ConnectorGetThing ''missing''])
   \<and> queryType_action exampleSchema \<lparr>Source = SourceNil, Args = [''id'' \<mapsto> ArgString ''missing''], FieldASTs = []\<rparr>
     = Returned (ValAction (zeroActionGetResponse\<lparr>action_Schema := Some [], Things := Some zeroObjectSubject\<rparr>),
                 Some notFound, [ConnectorGetAction ''missing''])
   \<and> queryType_key exampleSchema \<lparr>Source = SourceNil, Args = [''id'' \<mapsto> ArgString ''missing''], FieldASTs = []\<rparr>
     = Returned (ValKey zeroKeyTokenGetResponse, Some notFound, [ConnectorGetKey ''missing''])"
  using queryType_entity_and_error[of "\<lparr>Source = SourceNil, Args = [''id'' \<mapsto> ArgString ''missing''], FieldASTs = []\<rparr>"
      "''missing''" exampleSchema]
  by (simp add: example_defs)

section \<open>Reprojection\<close>

lemma GetSubQuery_loop_reprojection:
  "list_all onlyFields selections \<Longrightarrow>
   GetSubQuery_loop collectQuery selections = Returned (collectQuery @ reprojection selections)"
  by (induction collectQuery selections rule: GetSubQuery_loop.induct) auto

text \<open>
  C3, as stated, fails: a parsed selection that holds a fragment spread makes
  \<^verbatim>\<open>GetSubQuery\<close> panic at its unchecked assertion.
\<close>

theorem GetSubQuery_fragment_counterexample:
  "GetSubQuery [SelField (Field ''uuid'' None), SelFragmentSpread ''KeyParts''] = Panic"
  by (simp add: GetSubQuery_def)

text \<open>
  C3, amended: for every selection subtree made of field nodes only, reprojection
  returns the rendering of the field names in their order, depth first and left to
  right, a nested selection as a block in braces right after its field name and one
  space; reprojecting \<^verbatim>\<open>{ uuid key { uuid token } }\<close> yields
  \<^verbatim>\<open>" uuid key {  uuid token } "\<close>, which is \<^verbatim>\<open>" uuid key { uuid token } "\<close> up to
  a doubled space.
\<close>

theorem GetSubQuery_reprojection:
  "(list_all onlyFields selections \<longrightarrow>
      GetSubQuery selections = Returned (reprojection selections))
   \<and> GetSubQuery scenarioD = Returned '' uuid key {  uuid token } ''
   \<and> squeeze '' uuid key {  uuid token } '' = '' uuid key { uuid token } ''"
  by (simp add: GetSubQuery_def GetSubQuery_loop_reprojection scenarioD_def)

theorem GetSubQuery_reprojection_witness:
  "list_all onlyFields scenarioD
   \<and> GetSubQuery scenarioD = Returned (reprojection scenarioD)
   \<and> reprojection scenarioD = '' uuid key {  uuid token } ''"
  using GetSubQuery_reprojection[of scenarioD]
  by (simp add: scenarioD_def)

section \<open>The round trip through the parser\<close>

lemma wellFormed_onlyFields: "wellFormed x \<Longrightarrow> onlyFields x"
  by (induction x rule: wellFormed.induct) (auto simp: list_all_iff)

lemma lexer_name: "list_all isNameChar n \<Longrightarrow> lexer pending (n @ s) = lexer (pending @ n) s"
  by (induction n arbitrary: pending) auto

lemma space_facts: "\<not> isNameChar CHR '' ''" "isIgnored CHR '' ''" "\<not> isNameChar CHR ''{''" "\<not> isNameChar CHR ''}''"
   "\<not> isIgnored CHR ''{''" "\<not> isIgnored CHR ''}''"
  by (simp_all add: isNameChar_def isIgnored_def)

lemma flushName_valid: "validName n \<Longrightarrow> flushName n = Some [TName n]"
  by (simp add: validName_def flushName_def)

lemma lexer_boundary:
  assumes "validName n" "boundary s"
  shows "lexer [] (n @ s) = map_option (Cons (TName n)) (lexer [] s)"
proof -
  have "lexer [] (n @ s) = lexer n s"
    using assms(1) lexer_name[of n "[]" s] by (simp add: validName_def)
  also have "\<dots> = map_option (Cons (TName n)) (lexer [] s)"
  proof (cases s)
    case Nil
    then show ?thesis using assms(1) by (simp add: flushName_valid) (simp add: flushName_def)
  next
    case (Cons c cs)
    then have "\<not> isNameChar c" using assms(2) by (simp add: boundary_def)
    then show ?thesis using Cons assms(1)
      by (cases "lexer [] cs") (simp_all add: flushName_valid, simp_all add: flushName_def)
  qed
  finally show ?thesis .
qed

lemma boundary_reprojection: "boundary s \<Longrightarrow> boundary (reprojection t @ s)"
  by (induction t rule: reprojection.induct) (simp_all add: boundary_def space_facts)

lemma lexer_space: "lexer [] (CHR '' '' # s) = lexer [] s"
  by (cases "lexer [] s") (simp_all add: space_facts flushName_def)

lemma lexer_lbrace: "lexer [] (CHR ''{'' # s) = map_option (Cons TLBrace) (lexer [] s)"
  by (cases "lexer [] s") (simp_all add: space_facts flushName_def)

lemma lexer_rbrace: "lexer [] (CHR ''}'' # s) = map_option (Cons TRBrace) (lexer [] s)"
  by (cases "lexer [] s") (simp_all add: space_facts flushName_def)

lemma lexer_reprojection:
  "list_all wellFormed t \<Longrightarrow> boundary s \<Longrightarrow>
   lexer [] (reprojection t @ s) = map_option (\<lambda>ts. fieldTokens t @ ts) (lexer [] s)"
proof (induction t arbitrary: s rule: reprojection.induct)
  case 1
  then show ?case by (simp add: option.map_ident)
next
  case (2 name rest)
  have b: "boundary (reprojection rest @ s)" using 2(3) by (rule boundary_reprojection)
  have "lexer [] (reprojection (SelField (Field name None) # rest) @ s)
        = lexer [] (name @ (reprojection rest @ s))" by (simp add: lexer_space del: lexer.simps)
  also have "\<dots> = map_option (Cons (TName name)) (lexer [] (reprojection rest @ s))"
    using 2(2) b by (simp add: lexer_boundary)
  also have "\<dots> = map_option (Cons (TName name)) (map_option (\<lambda>ts. fieldTokens rest @ ts) (lexer [] s))"
    using 2 by simp
  finally show ?case by (simp add: option.map_comp comp_def)
next
  case (3 name selections rest)
  let ?tail = "'' } '' @ reprojection rest @ s"
  have b1: "boundary (reprojection rest @ s)" using 3(4) by (rule boundary_reprojection)
  have b2: "boundary ?tail" by (simp add: boundary_def space_facts)
  have b3: "boundary ('' { '' @ reprojection selections @ ?tail)" by (simp add: boundary_def space_facts)
  have wf: "validName name" "list_all wellFormed selections" "list_all wellFormed rest"
    using 3(3) by simp_all
  have "lexer [] (reprojection (SelField (Field name (Some selections)) # rest) @ s)
        = lexer [] (name @ ('' { '' @ reprojection selections @ ?tail))" by (simp add: lexer_space del: lexer.simps)
  also have "\<dots> = map_option (Cons (TName name)) (lexer [] ('' { '' @ reprojection selections @ ?tail))"
    using wf(1) b3 by (rule lexer_boundary)
  also have "lexer [] ('' { '' @ reprojection selections @ ?tail)
        = map_option (Cons TLBrace) (lexer [] (reprojection selections @ ?tail))"
    by (simp add: lexer_space lexer_lbrace del: lexer.simps)
  also have "lexer [] (reprojection selections @ ?tail)
        = map_option (\<lambda>ts. fieldTokens selections @ ts) (lexer [] ?tail)"
    using 3(1)[OF wf(2) b2] .
  also have "lexer [] ?tail = map_option (Cons TRBrace) (lexer [] (reprojection rest @ s))"
    by (simp add: lexer_space lexer_rbrace del: lexer.simps)
  also have "lexer [] (reprojection rest @ s) = map_option (\<lambda>ts. fieldTokens rest @ ts) (lexer [] s)"
    using 3(2)[OF wf(3) 3(4)] .
  finally show ?case by (simp add: option.map_comp comp_def)
next
  case (4 v rest)
  then show ?case by simp
next
  case (5 v rest)
  then show ?case by simp
qed

lemma parseTokens_leaf:
  "noLBrace ts \<Longrightarrow> parseTokens (TName name # ts) stack current
     = parseTokens ts stack (SelField (Field name None) # current)"
proof (cases ts)
  case Nil
  then show ?thesis by simp
next
  case (Cons t ts')
  assume "noLBrace ts"
  with Cons show ?thesis by (cases t) (simp_all add: noLBrace_def)
qed

lemma noLBrace_fieldTokens: "list_all wellFormed t \<Longrightarrow> noLBrace rest \<Longrightarrow> noLBrace (fieldTokens t @ rest)"
  by (cases t rule: fieldTokens.cases) (simp_all add: noLBrace_def)

lemma parseTokens_fieldTokens:
  "list_all wellFormed t \<Longrightarrow> noLBrace rest \<Longrightarrow>
   parseTokens (fieldTokens t @ rest) stack current = parseTokens rest stack (rev t @ current)"
proof (induction t arbitrary: rest stack current rule: fieldTokens.induct)
  case 1
  then show ?case by simp
next
  case (2 name rest0)
  have "noLBrace (fieldTokens rest0 @ rest)" using 2 by (simp add: noLBrace_fieldTokens)
  then show ?case using 2 by (simp add: parseTokens_leaf del: parseTokens.simps)
next
  case (3 name selections rest0)
  have wf: "selections \<noteq> []" "list_all wellFormed selections" "list_all wellFormed rest0"
    using 3(3) by simp_all
  have nb: "noLBrace (TRBrace # fieldTokens rest0 @ rest)" by (simp add: noLBrace_def)
  have "parseTokens (fieldTokens (SelField (Field name (Some selections)) # rest0) @ rest) stack current
        = parseTokens (fieldTokens selections @ (TRBrace # fieldTokens rest0 @ rest)) ((current, name) # stack) []"
    by simp
  also have "\<dots> = parseTokens (TRBrace # fieldTokens rest0 @ rest) ((current, name) # stack) (rev selections @ [])"
    using 3(1)[OF wf(2) nb] .
  also have "\<dots> = parseTokens (fieldTokens rest0 @ rest) stack (SelField (Field name (Some selections)) # current)"
    using wf(1) by simp
  also have "\<dots> = parseTokens rest stack (rev rest0 @ SelField (Field name (Some selections)) # current)"
    using 3(2)[OF wf(3) 3(4)] .
  finally show ?case by simp
next
  case (4 v rest0)
  then show ?case by simp
next
  case (5 v rest0)
  then show ?case by simp
qed

lemma parse_reprojection:
  assumes "list_all wellFormed t"
  shows "parseFieldList (reprojection t) = Some t"
proof -
  have "lexer [] (reprojection t @ []) = map_option (\<lambda>ts. fieldTokens t @ ts) (lexer [] [])"
    using assms by (rule lexer_reprojection) (simp add: boundary_def)
  then have l: "lexer [] (reprojection t) = Some (fieldTokens t)"
    by (simp add: flushName_def)
  have "parseTokens (fieldTokens t @ []) [] [] = parseTokens [] [] (rev t @ [])"
    using assms by (rule parseTokens_fieldTokens) (simp add: noLBrace_def)
  then show ?thesis using l by (simp add: parseFieldList_def)
qed


lemma flushName_names:
  "flushName pending = Some ts \<Longrightarrow> list_all isNameChar pending \<Longrightarrow> TName n \<in> set ts \<Longrightarrow> validName n"
  by (auto simp: flushName_def validName_def split: if_splits)

lemma lexer_names:
  "lexer pending s = Some ts \<Longrightarrow> list_all isNameChar pending \<Longrightarrow> TName n \<in> set ts \<Longrightarrow> validName n"
proof (induction s arbitrary: pending ts)
  case Nil
  then show ?case by (auto dest: flushName_names)
next
  case (Cons c cs)
  show ?case
  proof (cases "isNameChar c")
    case True
    then show ?thesis using Cons.IH[of "pending @ [c]" ts] Cons.prems by simp
  next
    case False
    from False Cons.prems(1) obtain pre where pre: "flushName pending = Some pre"
      by (auto split: option.splits)
    from False Cons.prems(1) pre obtain ts' where ts': "lexer [] cs = Some ts'"
      by (auto split: if_splits)
    from False Cons.prems(1) pre ts' have mem: "set ts \<subseteq> set pre \<union> {TLBrace, TRBrace} \<union> set ts'"
      by (auto split: if_splits)
    from mem Cons.prems(3) have "TName n \<in> set pre \<or> TName n \<in> set ts'" by auto
    then show ?thesis
    proof
      assume "TName n \<in> set pre"
      with pre Cons.prems(2) show ?thesis by (auto dest: flushName_names)
    next
      assume "TName n \<in> set ts'"
      with ts' show ?thesis using Cons.IH[of "[]" ts'] by simp
    qed
  qed
qed

lemma parseTokens_wellFormed:
  "parseTokens ts stack current = Some t \<Longrightarrow> (\<forall>n. TName n \<in> set ts \<longrightarrow> validName n) \<Longrightarrow>
   list_all wellFormed current \<Longrightarrow> list_all frameOk stack \<Longrightarrow> list_all wellFormed t"
  by (induction ts stack current arbitrary: t rule: parseTokens.induct)
     (auto simp: frameOk_def split: if_splits list.splits)

lemma parseFieldList_wellFormed:
  assumes "parseFieldList s = Some t"
  shows "list_all wellFormed t"
proof -
  from assms obtain ts where l: "lexer [] s = Some ts" and p: "parseTokens ts [] [] = Some t"
    by (auto simp: parseFieldList_def split: option.splits)
  have "\<forall>n. TName n \<in> set ts \<longrightarrow> validName n"
    using lexer_names[OF l] by simp
  with p show ?thesis by (rule parseTokens_wellFormed) simp_all
qed

text \<open>
  C4: for every selection subtree obtained by parsing a field list, reprojection
  returns, and parsing the string it returns gives the same subtree again: the same
  field names, nesting and order.
\<close>

theorem GetSubQuery_round_trip:
  assumes "parseFieldList s = Some selections"
  shows "case GetSubQuery selections of
           Panic \<Rightarrow> False
         | Returned subQuery \<Rightarrow> parseFieldList subQuery = Some selections"
proof -
  have wf: "list_all wellFormed selections" using assms by (rule parseFieldList_wellFormed)
  then have "list_all onlyFields selections"
    by (simp add: list_all_iff wellFormed_onlyFields)
  then have "GetSubQuery selections = Returned (reprojection selections)"
    by (simp add: GetSubQuery_def GetSubQuery_loop_reprojection)
  then show ?thesis using wf by (simp add: parse_reprojection)
qed

theorem GetSubQuery_round_trip_witness:
  "parseFieldList ''uuid key { uuid token }'' = Some scenarioD
   \<and> GetSubQuery scenarioD = Returned '' uuid key {  uuid token } ''
   \<and> parseFieldList '' uuid key {  uuid token } '' = Some scenarioD"
proof -
  have p: "parseFieldList ''uuid key { uuid token }'' = Some scenarioD"
    by (simp add: parseFieldList_def scenarioD_def isNameChar_def isIgnored_def isDigit_def
          flushName_def)
  have g: "GetSubQuery scenarioD = Returned '' uuid key {  uuid token } ''"
    by (simp add: GetSubQuery_def scenarioD_def)
  show ?thesis using GetSubQuery_round_trip[OF p] p g by simp
qed

end
